theory Spec2Isabelle
  imports Complex_Main
begin

section \<open>Values and errors\<close>

text \<open>
  Python floats are modelled as real numbers extended with the three IEEE special values
  the source writes out (\<^verbatim>\<open>np.inf\<close>, \<^verbatim>\<open>-np.inf\<close>, \<^verbatim>\<open>np.nan\<close>).
  Rounding is not modelled. Every comparison with NaN is false, as in Python.
\<close>

datatype fval = Fin real | PInf | MInf | NaN

fun fneg :: "fval \<Rightarrow> fval" where
  "fneg (Fin r) = Fin (- r)"
| "fneg PInf = MInf"
| "fneg MInf = PInf"
| "fneg NaN = NaN"

fun fabs :: "fval \<Rightarrow> fval" where
  "fabs (Fin r) = Fin \<bar>r\<bar>"
| "fabs PInf = PInf"
| "fabs MInf = PInf"
| "fabs NaN = NaN"

fun flt :: "fval \<Rightarrow> fval \<Rightarrow> bool" where
  "flt NaN _ = False"
| "flt _ NaN = False"
| "flt (Fin a) (Fin b) = (a < b)"
| "flt (Fin _) PInf = True"
| "flt (Fin _) MInf = False"
| "flt PInf _ = False"
| "flt MInf MInf = False"
| "flt MInf _ = True"

text \<open>
  The exceptions the source raises or lets through, as values. \<open>Deadlock\<close> is not an
  exception: it stands for a call that blocks forever on a lock it already holds.
\<close>

datatype py_error =
    InvalidMethod
  | NotEstimable
  | InvalidCriterion
  | InvalidAcquisition
  | TypeError
  | NameError
  | AttributeError
  | IndexError
  | ShapeError
  | LinAlgError
  | PoolError
  | SurrogateError
  | Deadlock

section \<open>basis.py\<close>

text \<open>
  \<^verbatim>\<open>fourier(t, p)\<close>: \<^verbatim>\<open>sqrt(1/2)\<close> for \<^verbatim>\<open>p == 0\<close>, \<^verbatim>\<open>cos(p*pi*t)\<close> for an even
  \<^verbatim>\<open>p\<close>, \<^verbatim>\<open>sin((p-1)*pi*t)\<close> otherwise. The index is a Python int.
\<close>

definition fourier :: "real \<Rightarrow> int \<Rightarrow> real" where
  "fourier t p =
     (if p = 0 then sqrt (1 / 2)
      else if p mod 2 = 0 then cos (of_int p * pi * t)
      else sin (of_int (p - 1) * pi * t))"

section \<open>cordex\_continuous: configuration checks\<close>

text \<open>
  The arguments of \<^verbatim>\<open>cordex_continuous\<close>. \<^verbatim>\<open>J_cb\<close> and \<^verbatim>\<open>R_0\<close> default to
  \<^verbatim>\<open>None\<close>; \<^verbatim>\<open>num_processes = None\<close> selects the sequential loop. The three
  progress-bar flags only switch printing and are left out. The argument \<^verbatim>\<open>method\<close> is
  the field \<open>opt_method\<close>.
\<close>

type_synonym mat = "real list list"

record config =
  runs :: int
  f_list :: "int list"
  scalars :: int
  optimality :: string
  J_cb :: "mat option"
  R_0 :: "mat option"
  smooth_pen :: real
  ridge_pen :: real
  epochs :: nat
  opt_method :: string
  random_start :: bool
  final_pass :: bool
  final_pass_iter :: nat
  num_processes :: "nat option"

text \<open>
  The two checks at the head of the body of \<^verbatim>\<open>cordex_continuous\<close>, in the source's
  order: the method must be one of four names, and
  \<^verbatim>\<open>runs < len(f_list) + scalars\<close> raises the estimability error. The comparison uses
  the \<^emph>\<open>length\<close> of \<^verbatim>\<open>f_list\<close>; the message of the same \<^verbatim>\<open>raise\<close> prints
  \<^verbatim>\<open>sum(f_list) + scalars\<close> as the number of parameters.
\<close>

definition valid_methods :: "string list" where
  "valid_methods = [''Nelder-Mead'', ''Powell'', ''TNC'', ''L-BFGS-B'']"

definition validate :: "config \<Rightarrow> py_error option" where
  "validate c =
     (if opt_method c \<notin> set valid_methods then Some InvalidMethod
      else if runs c < int (length (f_list c)) + scalars c then Some NotEstimable
      else None)"

text \<open>The number of parameters the error message reports.\<close>

definition parameters :: "config \<Rightarrow> int" where
  "parameters c = sum_list (f_list c) + scalars c"

section \<open>Matrices\<close>

text \<open>
  A numpy 2-d array is its list of rows. The structural operations of the source
  (slicing, stacking, product, sum) are written out with numpy's shape checks; an operand
  of the wrong shape raises, which is the value \<open>ShapeError\<close>. A matrix without rows
  carries no column count in this representation, so the model is faithful for arrays
  with at least one row. For the sum of two arrays only equal shapes are accepted
  (numpy would also broadcast a smaller operand).
\<close>

definition nrows :: "mat \<Rightarrow> nat" where
  "nrows m = length m"

definition ncols :: "mat \<Rightarrow> nat" where
  "ncols m = (case m of [] \<Rightarrow> 0 | r # _ \<Rightarrow> length r)"

text \<open>Python slices \<^verbatim>\<open>xs[:k]\<close> and \<^verbatim>\<open>xs[k:]\<close>; a negative bound counts from the end.\<close>

definition py_take :: "int \<Rightarrow> 'a list \<Rightarrow> 'a list" where
  "py_take k xs = (if 0 \<le> k then take (nat k) xs else take (length xs - nat (- k)) xs)"

definition py_drop :: "int \<Rightarrow> 'a list \<Rightarrow> 'a list" where
  "py_drop k xs = (if 0 \<le> k then drop (nat k) xs else drop (length xs - nat (- k)) xs)"

definition dot :: "real list \<Rightarrow> real list \<Rightarrow> real" where
  "dot u v = sum_list (map2 (*) u v)"

definition matT :: "mat \<Rightarrow> mat" where
  "matT m = map (\<lambda>j. map (\<lambda>r. r ! j) m) [0..<ncols m]"

definition matmul :: "mat \<Rightarrow> mat \<Rightarrow> py_error + mat" where
  "matmul a b =
     (if ncols a = nrows b then Inr (map (\<lambda>r. map (dot r) (matT b)) a) else Inl ShapeError)"

definition hstack3 :: "mat \<Rightarrow> mat \<Rightarrow> mat \<Rightarrow> py_error + mat" where
  "hstack3 a b c =
     (if nrows a = nrows b \<and> nrows b = nrows c
      then Inr (map (\<lambda>(x, y, z). x @ y @ z) (zip a (zip b c)))
      else Inl ShapeError)"

definition hstack2 :: "mat \<Rightarrow> mat \<Rightarrow> py_error + mat" where
  "hstack2 a b =
     (if nrows a = nrows b then Inr (map (\<lambda>(x, y). x @ y) (zip a b)) else Inl ShapeError)"

definition identity :: "nat \<Rightarrow> mat" where
  "identity n = map (\<lambda>i. map (\<lambda>j. if i = j then 1 else 0) [0..<n]) [0..<n]"

definition smul :: "real \<Rightarrow> mat \<Rightarrow> mat" where
  "smul k m = map (map ((*) k)) m"

definition madd :: "mat \<Rightarrow> mat \<Rightarrow> py_error + mat" where
  "madd a b =
     (if map length a = map length b then Inr (map2 (map2 (+)) a b) else Inl ShapeError)"

definition trace :: "mat \<Rightarrow> real" where
  "trace m = sum_list (map (\<lambda>i. m ! i ! i) [0..<min (nrows m) (ncols m)])"

definition ones :: "int \<Rightarrow> mat" where
  "ones n = replicate (nat n) [1]"

text \<open>Reading and writing one entry, \<^verbatim>\<open>m[i, j]\<close>; an index out of range raises.\<close>

definition mat_get :: "mat \<Rightarrow> nat \<Rightarrow> nat \<Rightarrow> py_error + real" where
  "mat_get m i j =
     (if i < length m \<and> j < length (m ! i) then Inr (m ! i ! j) else Inl IndexError)"

definition mat_set :: "mat \<Rightarrow> nat \<Rightarrow> nat \<Rightarrow> real \<Rightarrow> py_error + mat" where
  "mat_set m i j x =
     (if i < length m \<and> j < length (m ! i) then Inr (m[i := (m ! i)[j := x]])
      else Inl IndexError)"

section \<open>The environment\<close>

text \<open>
  What the source calls and this repository does not define is a parameter: numpy's
  \<^verbatim>\<open>linalg.inv\<close>, \<^verbatim>\<open>linalg.det\<close> and \<^verbatim>\<open>linalg.eigvals\<close> (\<open>None\<close> is
  \<^verbatim>\<open>LinAlgError\<close>), scipy's \<^verbatim>\<open>minimize\<close>, the starting design of an epoch
  (\<^verbatim>\<open>gen_rand_design_m\<close> followed by \<^verbatim>\<open>hstack\<close>, or \<^verbatim>\<open>cordex_discrete\<close>, both
  outside the source files at hand; the arguments are \<^verbatim>\<open>random_start\<close> and the
  number of the epoch), and what the parent process sees of
  \<^verbatim>\<open>Pool.imap_unordered\<close>: an exception or completion. \<open>'s\<close> is the state the
  objective function works on.
\<close>

record linalg =
  np_inv :: "mat \<Rightarrow> mat option"
  np_det :: "mat \<Rightarrow> real option"
  np_eigvals :: "mat \<Rightarrow> real list option"

record 's env = linalg +
  minimize :: "string \<Rightarrow> (real \<Rightarrow> 's \<Rightarrow> py_error + fval \<times> 's) \<Rightarrow> real \<Rightarrow> 's
                 \<Rightarrow> py_error + real \<times> 's"
  start_design :: "bool \<Rightarrow> nat \<Rightarrow> py_error + mat"
  imap_unordered :: "nat \<Rightarrow> nat \<Rightarrow> py_error option"

section \<open>cordex\_continuous: the criterion\<close>

text \<open>\<^verbatim>\<open>f_coeffs = sum(f_list) + 1\<close>.\<close>

definition f_coeffs :: "config \<Rightarrow> int" where
  "f_coeffs c = sum_list (f_list c) + 1"

text \<open>
  \<^verbatim>\<open>Zetta = concatenate((ones, Gamma @ J_cb, X), axis=1)\<close> and
  \<^verbatim>\<open>Mu = Zetta.T @ Zetta\<close>, where \<^verbatim>\<open>Gamma\<close> is the first \<^verbatim>\<open>f_coeffs\<close> columns of
  the design and \<^verbatim>\<open>X\<close> the rest. With \<^verbatim>\<open>J_cb = None\<close> the product raises
  (recorded as \<open>TypeError\<close>).
\<close>

definition Zetta :: "config \<Rightarrow> mat \<Rightarrow> py_error + mat" where
  "Zetta c M =
     (case J_cb c of
        None \<Rightarrow> Inl TypeError
      | Some J \<Rightarrow>
          (case matmul (map (py_take (f_coeffs c)) M) J of
             Inl e \<Rightarrow> Inl e
           | Inr GJ \<Rightarrow> hstack3 (ones (runs c)) GJ (map (py_drop (f_coeffs c)) M)))"

definition Mu :: "config \<Rightarrow> mat \<Rightarrow> py_error + mat" where
  "Mu c M = (case Zetta c M of Inl e \<Rightarrow> Inl e | Inr Z \<Rightarrow> matmul (matT Z) Z)"

text \<open>
  The regularised matrix \<^verbatim>\<open>P\<close>, with the source's four cases on
  \<^verbatim>\<open>R_0 is None\<close> and \<^verbatim>\<open>ridge_pen == 0\<close>.
\<close>

definition P_matrix :: "config \<Rightarrow> mat \<Rightarrow> py_error + mat" where
  "P_matrix c mu =
     (case R_0 c of
        None \<Rightarrow>
          (if ridge_pen c = 0 then Inr (identity (nrows mu))
           else madd mu (smul (ridge_pen c) (identity (nrows mu))))
      | Some R \<Rightarrow>
          (if ridge_pen c = 0 then madd mu (smul (smooth_pen c) R)
           else (case madd mu (smul (smooth_pen c) R) of
                   Inl e \<Rightarrow> Inl e
                 | Inr t \<Rightarrow> madd t (smul (ridge_pen c) (identity (nrows mu))))))"

text \<open>\<^verbatim>\<open>MATRIX = P_inv @ Mu @ P_inv\<close>.\<close>

definition sandwich :: "mat \<Rightarrow> mat \<Rightarrow> py_error + mat" where
  "sandwich pinv mu =
     (case matmul pinv mu of Inl e \<Rightarrow> Inl e | Inr t \<Rightarrow> matmul t pinv)"

text \<open>
  The part of \<^verbatim>\<open>objective\<close> after the write into the design: the value computed from
  the design matrix. A failing \<^verbatim>\<open>inv(P)\<close> returns NaN at once, before the criterion
  is looked at; for \<^verbatim>\<open>'D'\<close> the result is \<^verbatim>\<open>-value\<close>, for \<^verbatim>\<open>'A'\<close> it is
  \<^verbatim>\<open>value\<close>, and NaN stands for the value when the numpy call raises; every other
  criterion raises \<^verbatim>\<open>ValueError\<close> (\<open>InvalidCriterion\<close>).
\<close>

definition criterion :: "'x linalg_scheme \<Rightarrow> config \<Rightarrow> mat \<Rightarrow> py_error + fval" where
  "criterion env c M =
     (case Mu c M of
        Inl e \<Rightarrow> Inl e
      | Inr mu \<Rightarrow>
          (case P_matrix c mu of
             Inl e \<Rightarrow> Inl e
           | Inr P \<Rightarrow>
               (case np_inv env P of
                  None \<Rightarrow> Inr NaN
                | Some pinv \<Rightarrow>
                    (case sandwich pinv mu of
                       Inl e \<Rightarrow> Inl e
                     | Inr MATRIX \<Rightarrow>
                         if optimality c = ''D'' then
                           Inr (fneg (case np_det env MATRIX of None \<Rightarrow> NaN | Some v \<Rightarrow> Fin v))
                         else if optimality c = ''A'' then
                           Inr (case np_inv env MATRIX of None \<Rightarrow> NaN
                                | Some mi \<Rightarrow> Fin (trace mi))
                         else Inl InvalidCriterion))))"

section \<open>cordex\_continuous: the closure and its variables\<close>

text \<open>
  \<^verbatim>\<open>objective\<close>, \<^verbatim>\<open>check\<close> and \<^verbatim>\<open>run_epoch\<close> are nested functions. A name they
  only read is the variable of \<^verbatim>\<open>cordex_continuous\<close>; a name a nested function
  assigns is, without a \<^verbatim>\<open>nonlocal\<close> declaration (the source has none), a local
  variable of that function. So \<^verbatim>\<open>objective\<close> and \<^verbatim>\<open>check\<close> work on the variables
  of \<^verbatim>\<open>cordex_continuous\<close> recorded here, while \<^verbatim>\<open>run_epoch\<close>, which assigns
  \<^verbatim>\<open>Model_mat\<close>, \<^verbatim>\<open>run\<close>, \<^verbatim>\<open>feat\<close>, \<^verbatim>\<open>Best_obj\<close> and \<^verbatim>\<open>Best_des\<close>, has
  its own.

  \<^verbatim>\<open>Model_mat\<close> is \<open>None\<close> for Python's \<^verbatim>\<open>None\<close>. \<^verbatim>\<open>run\<close> and \<^verbatim>\<open>feat\<close>
  are \<open>None\<close> while unbound: \<^verbatim>\<open>cordex_continuous\<close> binds them only in the loops of
  its final pass. The only array \<^verbatim>\<open>cordex_continuous\<close> ever binds to \<^verbatim>\<open>Best_des\<close>
  is the object \<^verbatim>\<open>Model_mat\<close> itself (\<^verbatim>\<open>Best_des = Model_mat\<close>, no copy), so
  \<^verbatim>\<open>Best_des\<close> is a flag: unset for \<^verbatim>\<open>None\<close>, set for that shared object.
\<close>

record cells =
  Best_des_is_Model_mat :: bool
  Best_obj :: fval
  Model_mat :: "mat option"
  run :: "nat option"
  feat :: "nat option"

definition Best_des :: "cells \<Rightarrow> mat option" where
  "Best_des s = (if Best_des_is_Model_mat s then Model_mat s else None)"

text \<open>
  \<^verbatim>\<open>objective(x)\<close>. Its first statement is \<^verbatim>\<open>Model_mat[run, feat] = x\<close>: Python
  loads \<^verbatim>\<open>Model_mat\<close>, then \<^verbatim>\<open>run\<close> and \<^verbatim>\<open>feat\<close> (\<^verbatim>\<open>NameError\<close> when
  unbound), then stores (\<^verbatim>\<open>TypeError\<close> on \<^verbatim>\<open>None\<close>, \<^verbatim>\<open>IndexError\<close> out of
  range). The write stays in the array whatever the criterion then returns.
\<close>

definition objective ::
  "(cells, 'x) env_scheme \<Rightarrow> config \<Rightarrow> real \<Rightarrow> cells \<Rightarrow> py_error + fval \<times> cells" where
  "objective env c x s =
     (case run s of
        None \<Rightarrow> Inl NameError
      | Some r \<Rightarrow>
          (case feat s of
             None \<Rightarrow> Inl NameError
           | Some j \<Rightarrow>
               (case Model_mat s of
                  None \<Rightarrow> Inl TypeError
                | Some M \<Rightarrow>
                    (case mat_set M r j x of
                       Inl e \<Rightarrow> Inl e
                     | Inr M' \<Rightarrow>
                         (case criterion env c M' of
                            Inl e \<Rightarrow> Inl e
                          | Inr v \<Rightarrow> Inr (v, s\<lparr>Model_mat := Some M'\<rparr>))))))"

text \<open>
  \<^verbatim>\<open>check(obj)\<close>: \<^verbatim>\<open>0 < obj < Best_obj\<close> for \<^verbatim>\<open>'A'\<close>,
  \<^verbatim>\<open>obj < 0 < Best_obj\<close> for \<^verbatim>\<open>'D'\<close>; any other criterion falls off the end and
  returns \<^verbatim>\<open>None\<close>, which an \<^verbatim>\<open>if\<close> takes as false.
\<close>

definition check :: "config \<Rightarrow> cells \<Rightarrow> fval \<Rightarrow> bool" where
  "check c s obj =
     (if optimality c = ''A'' then flt (Fin 0) obj \<and> flt obj (Best_obj s)
      else if optimality c = ''D'' then flt obj (Fin 0) \<and> flt (Fin 0) (Best_obj s)
      else False)"

text \<open>A \<^verbatim>\<open>for\<close> loop over a list of indices; an exception in the body ends it.\<close>

fun for_each :: "'i list \<Rightarrow> ('i \<Rightarrow> 'a \<Rightarrow> py_error + 'a) \<Rightarrow> 'a \<Rightarrow> py_error + 'a" where
  "for_each [] body a = Inr a"
| "for_each (i # is) body a =
     (case body i a of Inl e \<Rightarrow> Inl e | Inr a' \<Rightarrow> for_each is body a')"

section \<open>cordex\_continuous: one epoch\<close>

text \<open>
  The body of the two loops of \<^verbatim>\<open>run_epoch\<close> at \<^verbatim>\<open>(run, feat)\<close>. The first
  component of the state is the local \<^verbatim>\<open>Model_mat\<close> of \<^verbatim>\<open>run_epoch\<close>, the second
  its \<^verbatim>\<open>objective_value\<close>, the third the variables of \<^verbatim>\<open>cordex_continuous\<close>, on
  which \<^verbatim>\<open>objective\<close> works. scipy's result always carries \<^verbatim>\<open>res.x\<close>, so the test
  \<^verbatim>\<open>res.x is not None\<close> holds.
\<close>

definition epoch_step ::
  "(cells, 'x) env_scheme \<Rightarrow> config \<Rightarrow> nat \<Rightarrow> nat \<Rightarrow> mat \<times> fval \<times> cells
     \<Rightarrow> py_error + mat \<times> fval \<times> cells" where
  "epoch_step env c r j st =
     (case st of (Ml, ov, s) \<Rightarrow>
        (case mat_get Ml r j of
           Inl e \<Rightarrow> Inl e
         | Inr x0 \<Rightarrow>
             (case minimize env (opt_method c) (objective env c) x0 s of
                Inl e \<Rightarrow> Inl e
              | Inr (x, s1) \<Rightarrow>
                  (case mat_set Ml r j x of
                     Inl e \<Rightarrow> Inl e
                   | Inr Ml' \<Rightarrow>
                       (case objective env c x s1 of
                          Inl e \<Rightarrow> Inl e
                        | Inr (v, s2) \<Rightarrow> Inr (Ml', v, s2))))))"

definition epoch_sweep ::
  "(cells, 'x) env_scheme \<Rightarrow> config \<Rightarrow> mat \<times> fval \<times> cells \<Rightarrow> py_error + mat \<times> fval \<times> cells" where
  "epoch_sweep env c st =
     for_each [0..<nat (runs c)]
       (\<lambda>r. for_each [0..<nat (f_coeffs c + scalars c - 1)] (\<lambda>j. epoch_step env c r j)) st"

text \<open>
  \<^verbatim>\<open>run_epoch(args)\<close>. The first statement unpacks \<^verbatim>\<open>args\<close> into
  \<^verbatim>\<open>update_lock, epoch\<close>; \<^verbatim>\<open>args = None\<close> cannot be unpacked and raises
  \<^verbatim>\<open>TypeError\<close>. The whole body runs inside \<^verbatim>\<open>with update_lock\<close>; when
  \<^verbatim>\<open>check\<close> accepts, the source enters \<^verbatim>\<open>with update_lock\<close> a second time, and
  the lock of a \<^verbatim>\<open>Manager\<close> is not re-entrant, so the assignments to the (local)
  \<^verbatim>\<open>Best_obj\<close> and \<^verbatim>\<open>Best_des\<close> behind it are not reached. Nothing in
  \<^verbatim>\<open>run_epoch\<close> assigns a variable of \<^verbatim>\<open>cordex_continuous\<close>; the result is those
  variables as \<^verbatim>\<open>objective\<close> left them.
\<close>

definition run_epoch ::
  "(cells, 'x) env_scheme \<Rightarrow> config \<Rightarrow> nat option \<Rightarrow> cells \<Rightarrow> py_error + cells" where
  "run_epoch env c args s =
     (case args of
        None \<Rightarrow> Inl TypeError
      | Some epoch \<Rightarrow>
          (case start_design env (random_start c) epoch of
             Inl e \<Rightarrow> Inl e
           | Inr M0 \<Rightarrow>
               (case epoch_sweep env c (M0, PInf, s) of
                  Inl e \<Rightarrow> Inl e
                | Inr (Ml, ov, s') \<Rightarrow> if check c s' ov then Inl Deadlock else Inr s')))"

section \<open>cordex\_continuous: final pass and main body\<close>

text \<open>
  The loops of the final pass are in the body of \<^verbatim>\<open>cordex_continuous\<close>, so here
  \<^verbatim>\<open>run\<close>, \<^verbatim>\<open>feat\<close> and \<^verbatim>\<open>Model_mat\<close> are the variables \<^verbatim>\<open>objective\<close> uses.
\<close>

definition final_step ::
  "(cells, 'x) env_scheme \<Rightarrow> config \<Rightarrow> nat \<Rightarrow> fval \<times> cells \<Rightarrow> py_error + fval \<times> cells" where
  "final_step env c j st =
     (case st of (ov, s0) \<Rightarrow>
        (let s = s0\<lparr>feat := Some j\<rparr> in
         case (Model_mat s, run s) of
           (Some M, Some r) \<Rightarrow>
             (case mat_get M r j of
                Inl e \<Rightarrow> Inl e
              | Inr x0 \<Rightarrow>
                  (case minimize env (opt_method c) (objective env c) x0 s of
                     Inl e \<Rightarrow> Inl e
                   | Inr (x, s1) \<Rightarrow>
                       (case Model_mat s1 of
                          None \<Rightarrow> Inl TypeError
                        | Some M1 \<Rightarrow>
                            (case mat_set M1 r j x of
                               Inl e \<Rightarrow> Inl e
                             | Inr M2 \<Rightarrow> objective env c x (s1\<lparr>Model_mat := Some M2\<rparr>)))))
         | _ \<Rightarrow> Inl TypeError))"

definition final_row ::
  "(cells, 'x) env_scheme \<Rightarrow> config \<Rightarrow> nat \<Rightarrow> fval \<times> cells \<Rightarrow> py_error + fval \<times> cells" where
  "final_row env c r st =
     (case st of (ov, s0) \<Rightarrow>
        (let s = s0\<lparr>run := Some r\<rparr> in
         case Model_mat s of
           None \<Rightarrow> Inl AttributeError
         | Some M \<Rightarrow> for_each [0..<ncols M] (final_step env c) (ov, s)))"

text \<open>
  One iteration of the final pass: \<^verbatim>\<open>Model_mat.shape[0]\<close> raises
  \<^verbatim>\<open>AttributeError\<close> when \<^verbatim>\<open>Model_mat\<close> is \<^verbatim>\<open>None\<close>; after the sweep an
  accepted value is stored with \<^verbatim>\<open>Best_des = Model_mat\<close>.
\<close>

definition final_iter :: "(cells, 'x) env_scheme \<Rightarrow> config \<Rightarrow> cells \<Rightarrow> py_error + cells" where
  "final_iter env c s =
     (case Model_mat s of
        None \<Rightarrow> Inl AttributeError
      | Some M \<Rightarrow>
          (case for_each [0..<nrows M] (final_row env c) (PInf, s) of
             Inl e \<Rightarrow> Inl e
           | Inr (ov, s') \<Rightarrow>
               Inr (if check c s' ov
                    then s'\<lparr>Best_obj := ov, Best_des_is_Model_mat := True\<rparr>
                    else s')))"

text \<open>
  The scheduling of the epochs: without \<^verbatim>\<open>num_processes\<close> the loop calls
  \<^verbatim>\<open>run_epoch(None)\<close> once per epoch; with it the epochs go to a process pool, whose
  workers have their own memory, so the variables of the calling process stay as they are.
\<close>

definition run_epochs :: "(cells, 'x) env_scheme \<Rightarrow> config \<Rightarrow> cells \<Rightarrow> py_error + cells" where
  "run_epochs env c s =
     (case num_processes c of
        None \<Rightarrow> for_each [0..<epochs c] (\<lambda>_. run_epoch env c None) s
      | Some k \<Rightarrow>
          (case imap_unordered env k (epochs c) of Some e \<Rightarrow> Inl e | None \<Rightarrow> Inr s))"

definition init_cells :: cells where
  "init_cells =
     \<lparr>Best_des_is_Model_mat = False, Best_obj = PInf, Model_mat = None,
      run = None, feat = None\<rparr>"

text \<open>
  \<^verbatim>\<open>cordex_continuous\<close>: the checks, the epochs, the final pass, and the result
  \<^verbatim>\<open>(Best_des, np.abs(Best_obj))\<close>.
\<close>

definition cordex_continuous ::
  "(cells, 'x) env_scheme \<Rightarrow> config \<Rightarrow> py_error + mat option \<times> fval" where
  "cordex_continuous env c =
     (case validate c of
        Some e \<Rightarrow> Inl e
      | None \<Rightarrow>
          (case run_epochs env c init_cells of
             Inl e \<Rightarrow> Inl e
           | Inr s1 \<Rightarrow>
               (case (if final_pass c
                      then for_each [0..<final_pass_iter c] (\<lambda>_. final_iter env c) s1
                      else Inr s1) of
                  Inl e \<Rightarrow> Inl e
                | Inr s2 \<Rightarrow> Inr (Best_des s2, fabs (Best_obj s2)))))"

section \<open>Results\<close>

text \<open>
  C10. The Fourier basis function of index 1 is the zero function: the odd branch
  computes \<open>sin ((p - 1) * pi * t)\<close>, which at \<open>p = 1\<close> is \<open>sin 0\<close>.
\<close>

theorem fourier_index_one_zero:
  "fourier t 1 = sin (of_int (1 - 1) * pi * t) \<and> fourier t 1 = 0"
  by (simp add: fourier_def)

end
